theory Spec2Isabelle
  imports Main "HOL-Library.Word"
begin

unbundle bit_operations_syntax

section \<open>Machine types\<close>

text \<open>
  The firmware runs on a 32-bit ESP32: \<^verbatim>\<open>uint8_t\<close> is an 8-bit word,
  \<^verbatim>\<open>int8_t\<close> an 8-bit word read with \<open>sint\<close>, \<^verbatim>\<open>int16_t\<close> a 16-bit word,
  \<^verbatim>\<open>int\<close> and \<^verbatim>\<open>unsigned long\<close> 32-bit words (arithmetic wraps).
\<close>

type_synonym uint8_t = "8 word"
type_synonym int8_t = "8 word"
type_synonym int16_t = "16 word"
type_synonym int_t = "32 word"
type_synonym ulong = "32 word"

section \<open>BLEJoystick.h: the device object\<close>

definition DEVICE_STOPPED :: uint8_t where "DEVICE_STOPPED = 0"
definition DEVICE_IDLE :: uint8_t where "DEVICE_IDLE = 1"
definition DEVICE_ADVERTISING :: uint8_t where "DEVICE_ADVERTISING = 2"
definition DEVICE_CONNECTED :: uint8_t where "DEVICE_CONNECTED = 3"

text \<open>
  \<^verbatim>\<open>std::function<void()> stateChangeCallback\<close>: empty (\<open>None\<close>) after construction;
  the only function this repository ever registers is \<^verbatim>\<open>joystickStateCallback\<close> of
  main.cpp.
\<close>

datatype callback = JoystickStateCallback

text \<open>
  The fields of \<^verbatim>\<open>class BLEJoystick\<close>. The four NimBLE pointers are handles into the
  Bluetooth stack and carry no state of this program. A C array \<^verbatim>\<open>T a[n]\<close> is a list
  of length \<open>n\<close>.
\<close>

record BLEJoystick =
  deviceState :: uint8_t
  batteryLevel :: uint8_t
  stateChangeCallback :: "callback option"
  buttons :: "uint8_t list"
  axes :: "int16_t list"
  hat :: uint8_t

section \<open>BLEJoystick.cpp: input state setters\<close>

text \<open>\<^verbatim>\<open>if (b) byte |= (1 << n);\<close>\<close>

definition orBit :: "bool \<Rightarrow> nat \<Rightarrow> uint8_t \<Rightarrow> uint8_t" where
  "orBit b n byte = (if b then byte OR push_bit n 1 else byte)"

text \<open>
  \<^verbatim>\<open>setButtons\<close> assigns both elements of \<^verbatim>\<open>buttons[2]\<close>: each is cleared and
  then the bits of its buttons are or-ed in, in the order of the source.
\<close>

definition setButtons ::
  "bool \<Rightarrow> bool \<Rightarrow> bool \<Rightarrow> bool \<Rightarrow> bool \<Rightarrow> bool \<Rightarrow> bool \<Rightarrow> bool \<Rightarrow>
   bool \<Rightarrow> bool \<Rightarrow> bool \<Rightarrow> bool \<Rightarrow> BLEJoystick \<Rightarrow> BLEJoystick" where
  "setButtons b1 b2 b3 b4 b5 b6 b7 b8 b9 b10 b11 b12 j =
     (let buttons0 = orBit b8 7 (orBit b7 6 (orBit b6 5 (orBit b5 4
                       (orBit b4 3 (orBit b3 2 (orBit b2 1 (orBit b1 0 0)))))));
          buttons1 = orBit b12 3 (orBit b11 2 (orBit b10 1 (orBit b9 0 0)))
      in j\<lparr>buttons := [buttons0, buttons1]\<rparr>)"

text \<open>\<^verbatim>\<open>setAxes\<close> assigns all eight elements of \<^verbatim>\<open>axes[8]\<close>.\<close>

definition setAxes ::
  "int16_t \<Rightarrow> int16_t \<Rightarrow> int16_t \<Rightarrow> int16_t \<Rightarrow> int16_t \<Rightarrow> int16_t \<Rightarrow> int16_t \<Rightarrow> int16_t \<Rightarrow>
   BLEJoystick \<Rightarrow> BLEJoystick" where
  "setAxes x y z rZ rX rY slider1 slider2 j =
     j\<lparr>axes := [x, y, z, rZ, rX, rY, slider1, slider2]\<rparr>"

text \<open>\<^verbatim>\<open>hat = hatDirection <= 8 ? hatDirection : 0;\<close>\<close>

definition setHat :: "uint8_t \<Rightarrow> BLEJoystick \<Rightarrow> BLEJoystick" where
  "setHat hatDirection j = j\<lparr>hat := (if hatDirection \<le> 8 then hatDirection else 0)\<rparr>"

text \<open>\<^verbatim>\<open>batteryLevel = level > 100 ? 100 : level;\<close>\<close>

definition setBatteryLevel :: "uint8_t \<Rightarrow> BLEJoystick \<Rightarrow> BLEJoystick" where
  "setBatteryLevel level j = j\<lparr>batteryLevel := (if level > 100 then 100 else level)\<rparr>"

definition getState :: "BLEJoystick \<Rightarrow> uint8_t" where
  "getState j = deviceState j"

definition setStateChangeCallback :: "callback \<Rightarrow> BLEJoystick \<Rightarrow> BLEJoystick" where
  "setStateChangeCallback cb j = j\<lparr>stateChangeCallback := Some cb\<rparr>"

section \<open>BLEJoystick.cpp: the report buffer\<close>

text \<open>
  The local buffer \<^verbatim>\<open>uint8_t report[5]\<close> that \<^verbatim>\<open>notifyHIDReport\<close> fills: the two
  button bytes, the hat masked with \<^verbatim>\<open>0x0F\<close>, and the X and Y axes, each converted
  from \<^verbatim>\<open>int16_t\<close> to \<^verbatim>\<open>uint8_t\<close> (the low eight bits).
\<close>

definition report :: "BLEJoystick \<Rightarrow> uint8_t list" where
  "report j =
     [buttons j ! 0,
      buttons j ! 1,
      hat j AND 0x0F,
      ucast (axes j ! 0),
      ucast (axes j ! 1)]"

section \<open>The world around the device object\<close>

text \<open>
  What leaves the program is recorded as a trace of events: the calls into the Bluetooth
  stack (advertising started or stopped, a \<^verbatim>\<open>setValue\<close> and \<^verbatim>\<open>notify\<close> on the
  input or on the battery characteristic), \<^verbatim>\<open>digitalWrite\<close> on a pin, and
  \<^verbatim>\<open>esp_deep_sleep_start\<close>. \<open>CallbackInvoked old new\<close> records one call of the
  registered state-change callback, with the device state before and after the
  transition that caused it. Text written to \<^verbatim>\<open>Serial\<close> is diagnostic and is not
  recorded, and \<^verbatim>\<open>delayMicroseconds\<close> is below the resolution of the clock.
\<close>

datatype event =
    CallbackInvoked uint8_t uint8_t
  | AdvertisingStart
  | AdvertisingStop
  | InputNotify "uint8_t list"
  | BatteryNotify uint8_t
  | DigitalWrite nat bool
  | DeepSleep

text \<open>
  The globals of main.cpp (\<open>mainBatteryLevel\<close> is its \<^verbatim>\<open>int batteryLevel\<close>,
  \<open>lastBatteryCheck\<close> the static local of \<^verbatim>\<open>loop\<close>), the object behind the
  \<^verbatim>\<open>joystick\<close> pointer, the value \<^verbatim>\<open>millis()\<close> returns (\<open>clock\<close>), the trace,
  and whether the chip has entered deep sleep, from which no call returns. The two
  \<^verbatim>\<open>bool [8]\<close> arrays are written one element at a time, so they are kept as
  functions of the index; the program only uses indices below 8.
\<close>

record world =
  joystick :: BLEJoystick
  buttonState :: "nat \<Rightarrow> bool"
  prevButtonState :: "nat \<Rightarrow> bool"
  lastActivityTime :: ulong
  advertisingStartTime :: ulong
  mainBatteryLevel :: int_t
  prevBatteryLevel :: int_t
  lastBatteryCheck :: ulong
  clock :: ulong
  trace :: "event list"
  asleep :: bool

definition emit :: "event \<Rightarrow> world \<Rightarrow> world" where
  "emit e w = w\<lparr>trace := trace w @ [e]\<rparr>"

definition millis :: "world \<Rightarrow> ulong" where
  "millis w = clock w"

definition delay :: "ulong \<Rightarrow> world \<Rightarrow> world" where
  "delay ms w = w\<lparr>clock := clock w + ms\<rparr>"

definition BATTERY_PIN :: nat where "BATTERY_PIN = 0"
definition POWER_KEY_PIN :: nat where "POWER_KEY_PIN = 1"
definition LED0_PIN :: nat where "LED0_PIN = 8"
definition CLK_PIN :: nat where "CLK_PIN = 2"
definition LATCH_PIN :: nat where "LATCH_PIN = 3"
definition DATA_PIN :: nat where "DATA_PIN = 4"

definition HIGH :: bool where "HIGH = True"
definition LOW :: bool where "LOW = False"

definition digitalWrite :: "nat \<Rightarrow> bool \<Rightarrow> world \<Rightarrow> world" where
  "digitalWrite pin level w = emit (DigitalWrite pin level) w"

section \<open>BLEJoystick.cpp: notifications\<close>

definition notifyHIDReport :: "world \<Rightarrow> world" where
  "notifyHIDReport w =
     (if deviceState (joystick w) = DEVICE_CONNECTED
      then emit (InputNotify (report (joystick w))) w
      else w)"

definition notifyBatteryLevel :: "world \<Rightarrow> world" where
  "notifyBatteryLevel w =
     (if deviceState (joystick w) = DEVICE_CONNECTED
      then emit (BatteryNotify (batteryLevel (joystick w))) w
      else w)"

section \<open>main.cpp: the state-change callback\<close>

definition lightOn :: "world \<Rightarrow> world" where
  "lightOn w = digitalWrite LED0_PIN LOW w"

definition lightOff :: "world \<Rightarrow> world" where
  "lightOff w = digitalWrite LED0_PIN HIGH w"

text \<open>
  \<^verbatim>\<open>joystick->setBatteryLevel(batteryLevel)\<close> converts the \<^verbatim>\<open>int\<close> global to
  \<^verbatim>\<open>uint8_t\<close>.
\<close>

definition joystickStateCallback :: "world \<Rightarrow> world" where
  "joystickStateCallback w =
     (let s = getState (joystick w) in
      if s = DEVICE_IDLE then
        (let w1 = lightOff w in w1\<lparr>lastActivityTime := millis w1\<rparr>)
      else if s = DEVICE_ADVERTISING then
        w\<lparr>advertisingStartTime := millis w\<rparr>
      else if s = DEVICE_CONNECTED then
        (let w1 = lightOn w;
             w2 = w1\<lparr>lastActivityTime := millis w1\<rparr>;
             w3 = w2\<lparr>joystick := setBatteryLevel (ucast (mainBatteryLevel w2)) (joystick w2)\<rparr>
         in notifyBatteryLevel w3)
      else w)"

fun invoke :: "callback \<Rightarrow> world \<Rightarrow> world" where
  "invoke JoystickStateCallback w = joystickStateCallback w"

section \<open>BLEJoystick.cpp: the device state machine\<close>

text \<open>
  \<^verbatim>\<open>updateDeviceState\<close>: nothing when the state is the requested one; otherwise the
  state is stored and the callback, when one is registered, is called.
\<close>

definition updateDeviceState :: "uint8_t \<Rightarrow> world \<Rightarrow> world" where
  "updateDeviceState newState w =
     (if deviceState (joystick w) \<noteq> newState then
        (let old = deviceState (joystick w);
             w1 = w\<lparr>joystick := (joystick w)\<lparr>deviceState := newState\<rparr>\<rparr>
         in case stateChangeCallback (joystick w1) of
              None \<Rightarrow> w1
            | Some cb \<Rightarrow> invoke cb (emit (CallbackInvoked old newState) w1))
      else w)"

definition start :: "world \<Rightarrow> world" where
  "start w =
     (if deviceState (joystick w) = DEVICE_STOPPED
      then updateDeviceState DEVICE_IDLE w
      else w)"

definition startAdvertising :: "world \<Rightarrow> world" where
  "startAdvertising w =
     (if deviceState (joystick w) = DEVICE_IDLE
      then updateDeviceState DEVICE_ADVERTISING (emit AdvertisingStart w)
      else w)"

definition stopAdvertising :: "world \<Rightarrow> world" where
  "stopAdvertising w =
     (if deviceState (joystick w) = DEVICE_ADVERTISING
      then updateDeviceState DEVICE_IDLE (emit AdvertisingStop w)
      else w)"

definition stop :: "world \<Rightarrow> world" where
  "stop w =
     (if deviceState (joystick w) \<noteq> DEVICE_STOPPED
      then updateDeviceState DEVICE_STOPPED (stopAdvertising w)
      else w)"

text \<open>\<^verbatim>\<open>ServerCallbacks::onConnect\<close> and \<^verbatim>\<open>onDisconnect\<close>, called by the stack.\<close>

definition onConnect :: "world \<Rightarrow> world" where
  "onConnect w = updateDeviceState DEVICE_CONNECTED w"

definition onDisconnect :: "world \<Rightarrow> world" where
  "onDisconnect w = updateDeviceState DEVICE_IDLE w"

section \<open>main.cpp: constants and power control\<close>

definition NES_BUTTON_A :: nat where "NES_BUTTON_A = 0"
definition NES_BUTTON_B :: nat where "NES_BUTTON_B = 1"
definition NES_BUTTON_SELECT :: nat where "NES_BUTTON_SELECT = 2"
definition NES_BUTTON_START :: nat where "NES_BUTTON_START = 3"
definition NES_BUTTON_UP :: nat where "NES_BUTTON_UP = 4"
definition NES_BUTTON_DOWN :: nat where "NES_BUTTON_DOWN = 5"
definition NES_BUTTON_LEFT :: nat where "NES_BUTTON_LEFT = 6"
definition NES_BUTTON_RIGHT :: nat where "NES_BUTTON_RIGHT = 7"

definition IDLE_TIMEOUT :: ulong where "IDLE_TIMEOUT = 30000"
definition ADVERTISING_TIMEOUT :: ulong where "ADVERTISING_TIMEOUT = 30000"

definition powerOn :: "world \<Rightarrow> world" where
  "powerOn w =
     digitalWrite POWER_KEY_PIN HIGH (delay 200 (digitalWrite POWER_KEY_PIN LOW w))"

text \<open>\<^verbatim>\<open>powerOff\<close> ends in \<^verbatim>\<open>esp_deep_sleep_start()\<close>, which does not return.\<close>

definition powerOff :: "world \<Rightarrow> world" where
  "powerOff w =
     (let w1 = delay 100 (digitalWrite POWER_KEY_PIN LOW w);
          w2 = delay 100 (digitalWrite POWER_KEY_PIN HIGH w1);
          w3 = delay 100 (digitalWrite POWER_KEY_PIN LOW w2);
          w4 = digitalWrite POWER_KEY_PIN HIGH w3
      in (emit DeepSleep w4)\<lparr>asleep := True\<rparr>)"

section \<open>main.cpp: timers\<close>

text \<open>
  \<^verbatim>\<open>checkTimers\<close> reads \<^verbatim>\<open>millis()\<close> once. The differences are computed in
  \<^verbatim>\<open>unsigned long\<close> and compared with \<^verbatim>\<open>>\<close>. After \<^verbatim>\<open>powerOff\<close> nothing
  further runs.
\<close>

definition checkTimers :: "world \<Rightarrow> world" where
  "checkTimers w =
     (let currentTime = millis w;
          w1 = (if getState (joystick w) = DEVICE_IDLE
                   \<and> currentTime - lastActivityTime w > IDLE_TIMEOUT
                then powerOff w else w)
      in if asleep w1 then w1
         else if getState (joystick w1) = DEVICE_ADVERTISING
                   \<and> currentTime - advertisingStartTime w1 > ADVERTISING_TIMEOUT
         then lightOff (stopAdvertising w1)
         else if getState (joystick w1) = DEVICE_ADVERTISING
         then digitalWrite LED0_PIN ((currentTime div 500) mod 2 = 0) w1
         else w1)"

section \<open>main.cpp: reading the controller\<close>

text \<open>
  One pass of \<^verbatim>\<open>readNESController\<close> reads the data pin eight times; \<open>dataPin i\<close> is
  the level \<^verbatim>\<open>digitalRead(DATA_PIN)\<close> returns at the \<open>i\<close>-th read of the pass, and
  \<open>batteryPercent\<close> what \<^verbatim>\<open>readBatteryLevel()\<close> returns in this iteration (it is
  computed in floating point from an analog reading).
\<close>

record inputs =
  dataPin :: "nat \<Rightarrow> bool"
  batteryPercent :: int_t

function readLoop :: "nat \<Rightarrow> (nat \<Rightarrow> bool) \<Rightarrow> world \<Rightarrow> world" where
  "readLoop i pin w =
     (if i < 8 then
        (let w1 = w\<lparr>buttonState := (buttonState w)(i := \<not> pin i)\<rparr>;
             w2 = digitalWrite CLK_PIN LOW (digitalWrite CLK_PIN HIGH w1)
         in readLoop (i + 1) pin w2)
      else w)"
  by pat_completeness auto
termination
  by (relation "measure (\<lambda>(i, pin, w). 8 - i)") auto

definition readNESController :: "(nat \<Rightarrow> bool) \<Rightarrow> world \<Rightarrow> world" where
  "readNESController pin w =
     readLoop 0 pin (digitalWrite LATCH_PIN LOW (digitalWrite LATCH_PIN HIGH w))"

section \<open>main.cpp: one iteration of the main loop\<close>

text \<open>
  The first \<^verbatim>\<open>for\<close> loop of \<^verbatim>\<open>loop\<close>: the flag \<^verbatim>\<open>stateChanged\<close> is carried
  along with the world.
\<close>

function edgeLoop :: "nat \<Rightarrow> bool \<Rightarrow> world \<Rightarrow> bool \<times> world" where
  "edgeLoop i stateChanged w =
     (if i < 8 then
        (if buttonState w i \<noteq> prevButtonState w i
         then edgeLoop (i + 1) True
                (w\<lparr>prevButtonState := (prevButtonState w)(i := buttonState w i)\<rparr>)
         else edgeLoop (i + 1) stateChanged w)
      else (stateChanged, w))"
  by pat_completeness auto
termination
  by (relation "measure (\<lambda>(i, c, w). 8 - i)") auto

text \<open>The hat direction computed from the four directional buttons.\<close>

definition dpadDirection :: "(nat \<Rightarrow> bool) \<Rightarrow> uint8_t" where
  "dpadDirection bs =
     (if bs NES_BUTTON_UP \<and> bs NES_BUTTON_RIGHT then 2
      else if bs NES_BUTTON_RIGHT \<and> bs NES_BUTTON_DOWN then 4
      else if bs NES_BUTTON_DOWN \<and> bs NES_BUTTON_LEFT then 6
      else if bs NES_BUTTON_LEFT \<and> bs NES_BUTTON_UP then 8
      else if bs NES_BUTTON_UP then 1
      else if bs NES_BUTTON_RIGHT then 3
      else if bs NES_BUTTON_DOWN then 5
      else if bs NES_BUTTON_LEFT then 7
      else 0)"

text \<open>
  The locals \<^verbatim>\<open>int8_t x\<close> and \<^verbatim>\<open>int8_t y\<close>. \<^verbatim>\<open>loop\<close> computes them and never
  passes them on: \<^verbatim>\<open>setAxes\<close> is not called anywhere in main.cpp.
\<close>

definition axisX :: "(nat \<Rightarrow> bool) \<Rightarrow> int8_t" where
  "axisX bs = (if bs NES_BUTTON_RIGHT then 127 else (if bs NES_BUTTON_LEFT then - 127 else 0))"

definition axisY :: "(nat \<Rightarrow> bool) \<Rightarrow> int8_t" where
  "axisY bs = (if bs NES_BUTTON_DOWN then 127 else (if bs NES_BUTTON_UP then - 127 else 0))"

text \<open>The body of \<^verbatim>\<open>if (stateChanged)\<close>.\<close>

definition updateJoystick :: "world \<Rightarrow> world" where
  "updateJoystick w =
     (let bs = buttonState w;
          hatValue = dpadDirection bs;
          x = axisX bs;
          y = axisY bs
      in if getState (joystick w) = DEVICE_CONNECTED then
           (let j1 = setHat hatValue (joystick w);
                j2 = setButtons (bs NES_BUTTON_A) (bs NES_BUTTON_B)
                       False False False False False False False False
                       (bs NES_BUTTON_SELECT) (bs NES_BUTTON_START) j1;
                w1 = notifyHIDReport (w\<lparr>joystick := j2\<rparr>)
            in w1\<lparr>lastActivityTime := millis w1\<rparr>)
         else if getState (joystick w) = DEVICE_IDLE then
           (let w1 = startAdvertising w
            in w1\<lparr>advertisingStartTime := millis w1\<rparr>)
         else w)"

text \<open>The battery check, every 5000 ms.\<close>

definition checkBattery :: "int_t \<Rightarrow> world \<Rightarrow> world" where
  "checkBattery reading w =
     (if millis w - lastBatteryCheck w > 5000 then
        (let w1 = w\<lparr>mainBatteryLevel := reading\<rparr>;
             w2 = (if mainBatteryLevel w1 \<noteq> prevBatteryLevel w1
                      \<and> getState (joystick w1) = DEVICE_CONNECTED
                   then notifyBatteryLevel
                          (w1\<lparr>prevBatteryLevel := mainBatteryLevel w1,
                              joystick := setBatteryLevel (ucast (mainBatteryLevel w1))
                                            (joystick w1)\<rparr>)
                   else w1)
         in w2\<lparr>lastBatteryCheck := millis w2\<rparr>)
      else w)"

definition loop :: "inputs \<Rightarrow> world \<Rightarrow> world" where
  "loop inp w =
     (let w1 = readNESController (dataPin inp) w;
          (stateChanged, w2) = edgeLoop 0 False w1;
          w3 = (if stateChanged then updateJoystick w2 else w2);
          w4 = checkBattery (batteryPercent inp) w3;
          w5 = checkTimers w4
      in if asleep w5 then w5 else delay 10 w5)"

section \<open>Start-up\<close>

text \<open>
  The constructor of \<^verbatim>\<open>BLEJoystick\<close>: stopped, battery 100, both arrays cleared, hat
  centred, no callback.
\<close>

definition newBLEJoystick :: BLEJoystick where
  "newBLEJoystick =
     setBatteryLevel 100
       \<lparr>deviceState = DEVICE_STOPPED, batteryLevel = 100, stateChangeCallback = None,
        buttons = replicate 2 0, axes = replicate 8 0, hat = 0\<rparr>"

text \<open>
  The globals as their initialisers leave them, at clock value \<open>t\<close>. The
  \<^verbatim>\<open>joystick\<close> pointer is assigned by \<^verbatim>\<open>setup\<close> before its first use.
\<close>

definition reset :: "ulong \<Rightarrow> world" where
  "reset t =
     \<lparr>joystick = newBLEJoystick,
      buttonState = (\<lambda>i. False), prevButtonState = (\<lambda>i. False),
      lastActivityTime = 0, advertisingStartTime = 0,
      mainBatteryLevel = 0, prevBatteryLevel = 0, lastBatteryCheck = 0,
      clock = t, trace = [], asleep = False\<rparr>"

text \<open>
  The world in the middle of \<^verbatim>\<open>setup\<close>, at clock 0: the object constructed and
  the callback registered, \<^verbatim>\<open>start\<close> not yet called.
\<close>

definition constructed :: world where
  "constructed =
     (reset 0)\<lparr>joystick := setStateChangeCallback JoystickStateCallback newBLEJoystick\<rparr>"

text \<open>The device entering Idle at clock 0, through \<^verbatim>\<open>start\<close>.\<close>

definition idleAtZero :: world where
  "idleAtZero = start constructed"

text \<open>\<^verbatim>\<open>setup()\<close> of main.cpp, with the first battery reading.\<close>

definition mainSetup :: "int_t \<Rightarrow> world \<Rightarrow> world" where
  "mainSetup reading w =
     (let w1 = powerOn w;
          w2 = w1\<lparr>joystick := setStateChangeCallback JoystickStateCallback newBLEJoystick\<rparr>;
          w3 = startAdvertising (start w2);
          w4 = w3\<lparr>advertisingStartTime := millis w3\<rparr>
      in w4\<lparr>mainBatteryLevel := reading, prevBatteryLevel := reading\<rparr>)"

text \<open>
  The states the firmware can be in: after \<^verbatim>\<open>setup\<close>, and then, as long as the chip
  is awake, after an iteration of \<^verbatim>\<open>loop\<close>, a connect or disconnect event of the
  stack, or the passing of time.
\<close>

inductive reachable :: "world \<Rightarrow> bool" where
  boot: "reachable (mainSetup reading (reset t))"
| iteration: "reachable w \<Longrightarrow> \<not> asleep w \<Longrightarrow> reachable (loop inp w)"
| connect: "reachable w \<Longrightarrow> \<not> asleep w \<Longrightarrow> reachable (onConnect w)"
| disconnect: "reachable w \<Longrightarrow> \<not> asleep w \<Longrightarrow> reachable (onDisconnect w)"
| tick: "reachable w \<Longrightarrow> \<not> asleep w \<Longrightarrow> reachable (delay d w)"

section \<open>Observations on the trace\<close>

text \<open>The reports sent on the input characteristic, oldest first.\<close>

fun inputReports :: "event list \<Rightarrow> uint8_t list list" where
  "inputReports [] = []"
| "inputReports (InputNotify r # es) = r # inputReports es"
| "inputReports (e # es) = inputReports es"

text \<open>The calls of the state-change callback, as (state before, state after).\<close>

fun callbacks :: "event list \<Rightarrow> (uint8_t \<times> uint8_t) list" where
  "callbacks [] = []"
| "callbacks (CallbackInvoked old new # es) = (old, new) # callbacks es"
| "callbacks (e # es) = callbacks es"

section \<open>Concrete scenarios\<close>

text \<open>
  The firmware after \<^verbatim>\<open>setup\<close> (battery reading 50, clock 0) and a connect event,
  and a poll in which only the A button is pressed: the data line is active low, so it
  is low at the first read and high at the other seven.
\<close>

definition connectedAfterSetup :: world where
  "connectedAfterSetup = onConnect (mainSetup 50 (reset 0))"

definition pressA :: inputs where
  "pressA = \<lparr>dataPin = (\<lambda>k. k \<noteq> NES_BUTTON_A), batteryPercent = 50\<rparr>"

text \<open>A poll in which only Up and Right are held.\<close>

definition pressUpRight :: inputs where
  "pressUpRight =
     \<lparr>dataPin = (\<lambda>k. k \<noteq> NES_BUTTON_UP \<and> k \<noteq> NES_BUTTON_RIGHT), batteryPercent = 50\<rparr>"

section \<open>Proof set-up\<close>

declare readLoop.simps [simp del]
declare edgeLoop.simps [simp del]

lemmas device_state_defs =
  DEVICE_STOPPED_def DEVICE_IDLE_def DEVICE_ADVERTISING_def DEVICE_CONNECTED_def

lemmas nes_button_defs =
  NES_BUTTON_A_def NES_BUTTON_B_def NES_BUTTON_SELECT_def NES_BUTTON_START_def
  NES_BUTTON_UP_def NES_BUTTON_DOWN_def NES_BUTTON_LEFT_def NES_BUTTON_RIGHT_def

lemmas io_defs =
  digitalWrite_def emit_def delay_def lightOn_def lightOff_def millis_def getState_def

lemmas machine_defs =
  start_def stop_def startAdvertising_def stopAdvertising_def onConnect_def onDisconnect_def
  updateDeviceState_def joystickStateCallback_def getState_def lightOn_def lightOff_def
  digitalWrite_def emit_def notifyBatteryLevel_def notifyHIDReport_def millis_def delay_def

lemmas constructed_defs =
  constructed_def reset_def newBLEJoystick_def setBatteryLevel_def setStateChangeCallback_def

section \<open>The report encoding\<close>

lemma bit_orBit: "bit (orBit b n byte) k = (bit byte k \<or> (b \<and> k = n \<and> n < 8))"
  by (auto simp: orBit_def bit_simps)

lemma length_report: "length (report j) = 5"
  by (simp add: report_def)

lemma report_setButtons_0:
  "bit (report (setButtons b1 b2 b3 b4 b5 b6 b7 b8 b9 b10 b11 b12 j) ! 0) i
     = (i < 8 \<and> [b1, b2, b3, b4, b5, b6, b7, b8] ! i)"
  apply (simp add: report_def setButtons_def Let_def bit_orBit)
  apply (auto simp: nth_Cons')
  done

lemma report_setButtons_1:
  "bit (report (setButtons b1 b2 b3 b4 b5 b6 b7 b8 b9 b10 b11 b12 j) ! 1) i
     = (i < 4 \<and> [b9, b10, b11, b12] ! i)"
  apply (simp add: report_def setButtons_def Let_def bit_orBit)
  apply (auto simp: nth_Cons')
  done

lemma low_nibble_mask: "(w :: uint8_t) AND 0x0F = take_bit 4 w"
proof -
  have "(0x0F :: uint8_t) = mask 4"
    by (simp add: mask_eq_exp_minus_1)
  then show ?thesis
    by (simp only: take_bit_eq_mask)
qed

lemma hat_le_8_mask: "(h :: uint8_t) \<le> 8 \<Longrightarrow> h AND 0x0F = h"
proof -
  have m: "(0x0F :: uint8_t) = mask 4"
    by (simp add: mask_eq_exp_minus_1)
  assume "h \<le> 8"
  then have "h < 2 ^ 4"
    by unat_arith
  then have "h AND mask 4 = h"
    by (rule less_mask_eq)
  then show ?thesis
    by (simp only: m)
qed

text \<open>
  Claim C1. For every assignment of the twelve button arguments, the report built after
  \<^verbatim>\<open>setButtons\<close> has five bytes; bit \<open>i\<close> (\<open>i < 8\<close>) of byte 0 is set exactly when
  button \<open>i + 1\<close> is true; bits 0 to 3 of byte 1 are buttons 9 to 12 and bits 4 and
  above of byte 1 are clear. The report is a function of the buttons, the hat and the
  axes alone: two device objects that agree on hat and axes give the same report for the
  same buttons, whatever their connection state, battery level or earlier buttons.
\<close>

theorem setButtons_report_bits:
  "(let r = report (setButtons b1 b2 b3 b4 b5 b6 b7 b8 b9 b10 b11 b12 j) in
      length r = 5
    \<and> (\<forall>i<8. bit (r ! 0) i = ([b1, b2, b3, b4, b5, b6, b7, b8] ! i))
    \<and> (\<forall>i<4. bit (r ! 1) i = ([b9, b10, b11, b12] ! i))
    \<and> (\<forall>i\<ge>4. \<not> bit (r ! 1) i)
    \<and> (\<forall>j'. hat j' = hat j \<and> axes j' = axes j \<longrightarrow>
         report (setButtons b1 b2 b3 b4 b5 b6 b7 b8 b9 b10 b11 b12 j') = r))"
proof -
  let ?r = "report (setButtons b1 b2 b3 b4 b5 b6 b7 b8 b9 b10 b11 b12 j)"
  have len: "length ?r = 5"
    by (rule length_report)
  have byte0: "\<forall>i<8. bit (?r ! 0) i = ([b1, b2, b3, b4, b5, b6, b7, b8] ! i)"
    using report_setButtons_0 [of b1 b2 b3 b4 b5 b6 b7 b8 b9 b10 b11 b12 j] by blast
  have byte1: "\<forall>i<4. bit (?r ! 1) i = ([b9, b10, b11, b12] ! i)"
    using report_setButtons_1 [of b1 b2 b3 b4 b5 b6 b7 b8 b9 b10 b11 b12 j] by blast
  have pad: "\<forall>i\<ge>4. \<not> bit (?r ! 1) i"
    using report_setButtons_1 [of b1 b2 b3 b4 b5 b6 b7 b8 b9 b10 b11 b12 j] by auto
  have det: "\<forall>j'. hat j' = hat j \<and> axes j' = axes j \<longrightarrow>
         report (setButtons b1 b2 b3 b4 b5 b6 b7 b8 b9 b10 b11 b12 j') = ?r"
    by (simp add: report_def setButtons_def Let_def)
  from len byte0 byte1 pad det show ?thesis
    unfolding Let_def by blast
qed

theorem setButtons_report_bits_witness:
  "report (setButtons True False True False False False False True
                      False True False False newBLEJoystick) = [0x85, 0x02, 0, 0, 0]"
  using setButtons_report_bits [of True False True False False False False True
                      False True False False newBLEJoystick]
  by (simp add: report_def setButtons_def orBit_def newBLEJoystick_def setBatteryLevel_def)

text \<open>
  Claim C7. \<^verbatim>\<open>setHat\<close> stores its argument unchanged when it is at most 8 and stores
  0 when it is greater than 8; it is total and touches no other field.
\<close>

theorem setHat_clamps:
  "(h \<le> 8 \<longrightarrow> setHat h j = j\<lparr>hat := h\<rparr>) \<and> (8 < h \<longrightarrow> setHat h j = j\<lparr>hat := 0\<rparr>)"
  by (simp add: setHat_def)

theorem setHat_clamps_witness:
  "hat (setHat 8 newBLEJoystick) = 8 \<and> hat (setHat 9 newBLEJoystick) = 0
   \<and> hat (setHat 255 newBLEJoystick) = 0"
  using setHat_clamps [of 8 newBLEJoystick] setHat_clamps [of 9 newBLEJoystick]
    setHat_clamps [of 255 newBLEJoystick]
  by simp

text \<open>
  Claim C8. Byte 2 of the report is the stored hat value and-ed with \<^verbatim>\<open>0x0F\<close>: its low
  nibble is the low nibble of the hat, its high nibble is 0, and for a stored hat of 0 to
  8 it is the hat itself. A stored hat outside 0 to 8 is masked, not clamped: 9 is
  reported as 9 and \<^verbatim>\<open>0x1F\<close> as \<^verbatim>\<open>0x0F\<close>.
\<close>

theorem report_hat_nibble:
  "report j ! 2 = hat j AND 0x0F
   \<and> take_bit 4 (report j ! 2) = take_bit 4 (hat j)
   \<and> drop_bit 4 (report j ! 2) = 0
   \<and> (hat j \<le> 8 \<longrightarrow> report j ! 2 = hat j)"
proof -
  have r: "report j ! 2 = hat j AND 0x0F"
    by (simp add: report_def)
  have t: "hat j AND 0x0F = take_bit 4 (hat j)"
    by (rule low_nibble_mask)
  have lo: "take_bit 4 (take_bit 4 (hat j)) = take_bit 4 (hat j)"
    by simp
  have hi: "drop_bit 4 (take_bit 4 (hat j)) = 0"
    by (rule bit_eqI) (simp add: bit_simps)
  have le: "hat j \<le> 8 \<longrightarrow> hat j AND 0x0F = hat j"
    using hat_le_8_mask [of "hat j"] by blast
  from r t lo hi le show ?thesis
    by metis
qed

theorem report_hat_nibble_witness:
  "report (newBLEJoystick\<lparr>hat := 7\<rparr>) ! 2 = 7
   \<and> report (newBLEJoystick\<lparr>hat := 0x1F\<rparr>) ! 2 = 0x0F
   \<and> report (newBLEJoystick\<lparr>hat := 9\<rparr>) ! 2 = 9"
  using report_hat_nibble [of "newBLEJoystick\<lparr>hat := 7\<rparr>"]
    report_hat_nibble [of "newBLEJoystick\<lparr>hat := 0x1F\<rparr>"]
    report_hat_nibble [of "newBLEJoystick\<lparr>hat := 9\<rparr>"]
  by (simp add: newBLEJoystick_def setBatteryLevel_def)

section \<open>The hat and axis values derived from the directional buttons\<close>

text \<open>
  The values \<^verbatim>\<open>loop\<close> derives, for every combination of Up, Down, Left and Right.
  The hat value is decided by the chain Up+Right, Right+Down, Down+Left, Left+Up, Up,
  Right, Down, Left, in this order, giving 2, 4, 6, 8, 1, 3, 5, 7, and 0 when none is
  held. So each adjacent pair held alone gives its diagonal, each single direction its
  cardinal value, an adjacent pair held together with anything else still gives a
  diagonal value, and Up with Right gives 2 whatever else is held. With Up and Right held
  the local \<^verbatim>\<open>x\<close> is 127, and the local \<^verbatim>\<open>y\<close> is -127 as long as Down is not
  held as well.
\<close>

lemma dpadDirection_priority:
  "(let up = bs NES_BUTTON_UP; down = bs NES_BUTTON_DOWN;
        left = bs NES_BUTTON_LEFT; right = bs NES_BUTTON_RIGHT in
      dpadDirection bs =
        (if up \<and> right then 2 else if right \<and> down then 4
         else if down \<and> left then 6 else if left \<and> up then 8
         else if up then 1 else if right then 3
         else if down then 5 else if left then 7 else 0)
    \<and> (up \<and> right \<and> \<not> down \<and> \<not> left \<longrightarrow> dpadDirection bs = 2)
    \<and> (right \<and> down \<and> \<not> up \<and> \<not> left \<longrightarrow> dpadDirection bs = 4)
    \<and> (down \<and> left \<and> \<not> up \<and> \<not> right \<longrightarrow> dpadDirection bs = 6)
    \<and> (left \<and> up \<and> \<not> down \<and> \<not> right \<longrightarrow> dpadDirection bs = 8)
    \<and> (up \<and> \<not> right \<and> \<not> down \<and> \<not> left \<longrightarrow> dpadDirection bs = 1)
    \<and> (right \<and> \<not> up \<and> \<not> down \<and> \<not> left \<longrightarrow> dpadDirection bs = 3)
    \<and> (down \<and> \<not> up \<and> \<not> right \<and> \<not> left \<longrightarrow> dpadDirection bs = 5)
    \<and> (left \<and> \<not> up \<and> \<not> right \<and> \<not> down \<longrightarrow> dpadDirection bs = 7)
    \<and> (\<not> up \<and> \<not> right \<and> \<not> down \<and> \<not> left \<longrightarrow> dpadDirection bs = 0)
    \<and> ((up \<and> right) \<or> (right \<and> down) \<or> (down \<and> left) \<or> (left \<and> up) \<longrightarrow>
          dpadDirection bs \<in> {2, 4, 6, 8})
    \<and> (up \<and> right \<longrightarrow> dpadDirection bs = 2 \<and> sint (axisX bs) = 127)
    \<and> (up \<and> right \<and> \<not> down \<longrightarrow> sint (axisY bs) = - 127))"
  by (simp add: Let_def dpadDirection_def axisX_def axisY_def)

lemma dpadDirection_priority_example:
  "dpadDirection (\<lambda>i. i = NES_BUTTON_UP \<or> i = NES_BUTTON_RIGHT) = 2
   \<and> sint (axisX (\<lambda>i. i = NES_BUTTON_UP \<or> i = NES_BUTTON_RIGHT)) = 127
   \<and> sint (axisY (\<lambda>i. i = NES_BUTTON_UP \<or> i = NES_BUTTON_RIGHT)) = - 127
   \<and> dpadDirection (\<lambda>i. i = NES_BUTTON_LEFT) = 7
   \<and> dpadDirection (\<lambda>i. False) = 0"
  using dpadDirection_priority [of "\<lambda>i. i = NES_BUTTON_UP \<or> i = NES_BUTTON_RIGHT"]
    dpadDirection_priority [of "\<lambda>i. i = NES_BUTTON_LEFT"]
    dpadDirection_priority [of "\<lambda>i. False"]
  by (simp add: nes_button_defs Let_def)



section \<open>The device state machine\<close>

lemma callbacks_append: "callbacks (xs @ ys) = callbacks xs @ callbacks ys"
  by (induction xs rule: callbacks.induct) simp_all

lemma inputReports_append: "inputReports (xs @ ys) = inputReports xs @ inputReports ys"
  by (induction xs rule: inputReports.induct) simp_all

lemma emit_fields:
  "joystick (emit e w) = joystick w" "trace (emit e w) = trace w @ [e]"
  by (simp_all add: emit_def)

text \<open>The callback of main.cpp requests no transition and registers nothing.\<close>

lemma joystickStateCallback_state:
  "deviceState (joystick (joystickStateCallback w)) = deviceState (joystick w)"
  by (simp add: joystickStateCallback_def Let_def getState_def lightOn_def lightOff_def
      digitalWrite_def emit_def notifyBatteryLevel_def setBatteryLevel_def)

lemma joystickStateCallback_callback:
  "stateChangeCallback (joystick (joystickStateCallback w)) = stateChangeCallback (joystick w)"
  by (simp add: joystickStateCallback_def Let_def getState_def lightOn_def lightOff_def
      digitalWrite_def emit_def notifyBatteryLevel_def setBatteryLevel_def)

lemma joystickStateCallback_callbacks:
  "callbacks (trace (joystickStateCallback w)) = callbacks (trace w)"
  by (simp add: joystickStateCallback_def Let_def getState_def lightOn_def lightOff_def
      digitalWrite_def emit_def notifyBatteryLevel_def setBatteryLevel_def callbacks_append)

lemma updateDeviceState_same: "updateDeviceState (deviceState (joystick w)) w = w"
  by (simp add: updateDeviceState_def)

lemma updateDeviceState_state:
  "deviceState (joystick (updateDeviceState s w)) = s"
  by (cases "stateChangeCallback (joystick w)"; cases "the (stateChangeCallback (joystick w))")
     (simp_all add: updateDeviceState_def Let_def emit_def joystickStateCallback_state)

lemma updateDeviceState_callback:
  "stateChangeCallback (joystick (updateDeviceState s w)) = stateChangeCallback (joystick w)"
  by (cases "stateChangeCallback (joystick w)"; cases "the (stateChangeCallback (joystick w))")
     (simp_all add: updateDeviceState_def Let_def emit_def joystickStateCallback_callback)

lemma updateDeviceState_callbacks:
  "stateChangeCallback (joystick w) = Some cb \<Longrightarrow> deviceState (joystick w) \<noteq> s \<Longrightarrow>
   callbacks (trace (updateDeviceState s w)) = callbacks (trace w) @ [(deviceState (joystick w), s)]"
  by (cases cb)
     (simp add: updateDeviceState_def Let_def emit_def joystickStateCallback_callbacks
        callbacks_append)

lemma updateDeviceState_noop:
  assumes "deviceState (joystick (updateDeviceState s w)) = deviceState (joystick w)"
  shows "updateDeviceState s w = w"
proof -
  from assms have "s = deviceState (joystick w)"
    by (simp add: updateDeviceState_state)
  then show ?thesis
    by (simp add: updateDeviceState_same)
qed

lemma startAdvertising_state:
  "deviceState (joystick w) = DEVICE_IDLE \<Longrightarrow>
   deviceState (joystick (startAdvertising w)) = DEVICE_ADVERTISING"
  by (simp add: startAdvertising_def updateDeviceState_state)

lemma startAdvertising_callbacks:
  "deviceState (joystick w) = DEVICE_IDLE \<Longrightarrow> stateChangeCallback (joystick w) = Some cb \<Longrightarrow>
   callbacks (trace (startAdvertising w)) = callbacks (trace w) @ [(DEVICE_IDLE, DEVICE_ADVERTISING)]"
  using updateDeviceState_callbacks [of "emit AdvertisingStart w" cb DEVICE_ADVERTISING]
  by (simp add: startAdvertising_def emit_fields callbacks_append device_state_defs)

text \<open>
  Claim C3. From Stopped, with a callback registered, \<^verbatim>\<open>start()\<close>, then
  \<^verbatim>\<open>startAdvertising()\<close>, then a connect event lead through Idle and Advertising to
  Connected, and the callback is called exactly three times: for Stopped to Idle, Idle
  to Advertising and Advertising to Connected, each a change of state.
\<close>

theorem start_advertise_connect:
  assumes stopped: "deviceState (joystick w) = DEVICE_STOPPED"
    and registered: "stateChangeCallback (joystick w) = Some cb"
  shows "deviceState (joystick (start w)) = DEVICE_IDLE
    \<and> deviceState (joystick (startAdvertising (start w))) = DEVICE_ADVERTISING
    \<and> deviceState (joystick (onConnect (startAdvertising (start w)))) = DEVICE_CONNECTED
    \<and> callbacks (trace (onConnect (startAdvertising (start w)))) =
        callbacks (trace w) @
          [(DEVICE_STOPPED, DEVICE_IDLE), (DEVICE_IDLE, DEVICE_ADVERTISING),
           (DEVICE_ADVERTISING, DEVICE_CONNECTED)]
    \<and> DEVICE_STOPPED \<noteq> DEVICE_IDLE \<and> DEVICE_IDLE \<noteq> DEVICE_ADVERTISING
    \<and> DEVICE_ADVERTISING \<noteq> DEVICE_CONNECTED"
proof -
  let ?w1 = "start w"
  let ?w2 = "startAdvertising ?w1"
  let ?w3 = "onConnect ?w2"
  have ne: "DEVICE_STOPPED \<noteq> DEVICE_IDLE" "DEVICE_IDLE \<noteq> DEVICE_ADVERTISING"
    "DEVICE_ADVERTISING \<noteq> DEVICE_CONNECTED"
    by (simp_all add: device_state_defs)
  have w1: "?w1 = updateDeviceState DEVICE_IDLE w"
    by (simp add: start_def stopped)
  have s1: "deviceState (joystick ?w1) = DEVICE_IDLE"
    by (simp add: w1 updateDeviceState_state)
  have c1: "stateChangeCallback (joystick ?w1) = Some cb"
    by (simp add: w1 updateDeviceState_callback registered)
  have t1: "callbacks (trace ?w1) = callbacks (trace w) @ [(DEVICE_STOPPED, DEVICE_IDLE)]"
    using updateDeviceState_callbacks [OF registered, of DEVICE_IDLE] stopped ne
    by (simp add: w1)
  have w2: "?w2 = updateDeviceState DEVICE_ADVERTISING (emit AdvertisingStart ?w1)"
    by (simp add: startAdvertising_def s1)
  have s2: "deviceState (joystick ?w2) = DEVICE_ADVERTISING"
    by (simp only: w2 updateDeviceState_state)
  have c2: "stateChangeCallback (joystick ?w2) = Some cb"
    by (simp only: w2 updateDeviceState_callback emit_fields c1)
  have t2: "callbacks (trace ?w2) = callbacks (trace ?w1) @ [(DEVICE_IDLE, DEVICE_ADVERTISING)]"
    using updateDeviceState_callbacks [of "emit AdvertisingStart ?w1" cb DEVICE_ADVERTISING]
      c1 s1 ne
    by (simp add: w2 emit_fields callbacks_append)
  have s3: "deviceState (joystick ?w3) = DEVICE_CONNECTED"
    by (simp only: onConnect_def updateDeviceState_state)
  have t3: "callbacks (trace ?w3) =
      callbacks (trace ?w2) @ [(DEVICE_ADVERTISING, DEVICE_CONNECTED)]"
    using updateDeviceState_callbacks [OF c2, of DEVICE_CONNECTED] s2 ne
    by (simp add: onConnect_def)
  from s1 s2 s3 t1 t2 t3 ne show ?thesis
    by simp
qed

theorem start_advertise_connect_witness:
  "deviceState (joystick constructed) = DEVICE_STOPPED
   \<and> stateChangeCallback (joystick constructed) = Some JoystickStateCallback
   \<and> deviceState (joystick (onConnect (startAdvertising (start constructed)))) = 3
   \<and> callbacks (trace (onConnect (startAdvertising (start constructed))))
       = [(0, 1), (1, 2), (2, 3)]"
proof -
  have a: "deviceState (joystick constructed) = DEVICE_STOPPED"
    by (simp add: constructed_defs)
  have b: "stateChangeCallback (joystick constructed) = Some JoystickStateCallback"
    by (simp add: constructed_defs)
  have c: "trace constructed = []"
    by (simp add: constructed_defs)
  show ?thesis
    using start_advertise_connect [OF a b] a b
    by (simp add: c device_state_defs)
qed

text \<open>
  Claim C4. A transition request that leaves the device state as it was leaves
  everything as it was, so no callback is called: this holds for
  \<^verbatim>\<open>updateDeviceState\<close> with the current state and for each of \<^verbatim>\<open>start\<close>,
  \<^verbatim>\<open>stop\<close>, \<^verbatim>\<open>startAdvertising\<close>, \<^verbatim>\<open>stopAdvertising\<close> and the connect and
  disconnect events. In particular \<^verbatim>\<open>startAdvertising\<close> while Advertising changes
  nothing, and two calls in a row from Idle equal one call and call the callback once.
\<close>

theorem unchanged_state_is_noop:
  "updateDeviceState (deviceState (joystick w)) w = w
   \<and> (deviceState (joystick w) = DEVICE_ADVERTISING \<longrightarrow> startAdvertising w = w)
   \<and> (deviceState (joystick w) = DEVICE_IDLE \<and> stateChangeCallback (joystick w) = Some cb \<longrightarrow>
        startAdvertising (startAdvertising w) = startAdvertising w
        \<and> callbacks (trace (startAdvertising (startAdvertising w))) =
            callbacks (trace w) @ [(DEVICE_IDLE, DEVICE_ADVERTISING)])
   \<and> (deviceState (joystick (start w)) = deviceState (joystick w) \<longrightarrow> start w = w)
   \<and> (deviceState (joystick (stop w)) = deviceState (joystick w) \<longrightarrow> stop w = w)
   \<and> (deviceState (joystick (startAdvertising w)) = deviceState (joystick w) \<longrightarrow>
        startAdvertising w = w)
   \<and> (deviceState (joystick (stopAdvertising w)) = deviceState (joystick w) \<longrightarrow>
        stopAdvertising w = w)
   \<and> (deviceState (joystick (onConnect w)) = deviceState (joystick w) \<longrightarrow> onConnect w = w)
   \<and> (deviceState (joystick (onDisconnect w)) = deviceState (joystick w) \<longrightarrow>
        onDisconnect w = w)"
proof -
  have adv: "startAdvertising w = w" if "deviceState (joystick w) = DEVICE_ADVERTISING"
    using that by (simp add: startAdvertising_def device_state_defs)
  have twice: "startAdvertising (startAdvertising w) = startAdvertising w"
    if "deviceState (joystick w) = DEVICE_IDLE"
    using startAdvertising_state [OF that]
    by (simp add: startAdvertising_def [of "startAdvertising w"] device_state_defs)
  have once: "callbacks (trace (startAdvertising (startAdvertising w))) =
            callbacks (trace w) @ [(DEVICE_IDLE, DEVICE_ADVERTISING)]"
    if "deviceState (joystick w) = DEVICE_IDLE" "stateChangeCallback (joystick w) = Some cb"
    using that by (simp add: twice startAdvertising_callbacks)
  have start: "deviceState (joystick (start w)) = deviceState (joystick w) \<longrightarrow> start w = w"
    by (simp add: start_def updateDeviceState_state device_state_defs)
  have stop: "deviceState (joystick (stop w)) = deviceState (joystick w) \<longrightarrow> stop w = w"
    by (simp add: stop_def updateDeviceState_state)
  have sa: "deviceState (joystick (startAdvertising w)) = deviceState (joystick w) \<longrightarrow>
        startAdvertising w = w"
    by (simp add: startAdvertising_def updateDeviceState_state device_state_defs)
  have so: "deviceState (joystick (stopAdvertising w)) = deviceState (joystick w) \<longrightarrow>
        stopAdvertising w = w"
    by (simp add: stopAdvertising_def updateDeviceState_state device_state_defs)
  have con: "deviceState (joystick (onConnect w)) = deviceState (joystick w) \<longrightarrow> onConnect w = w"
    unfolding onConnect_def by (blast intro: updateDeviceState_noop)
  have dis: "deviceState (joystick (onDisconnect w)) = deviceState (joystick w) \<longrightarrow>
        onDisconnect w = w"
    unfolding onDisconnect_def by (blast intro: updateDeviceState_noop)
  from adv twice once start stop sa so con dis updateDeviceState_same [of w]
  show ?thesis by blast
qed

theorem unchanged_state_is_noop_witness:
  "deviceState (joystick (start constructed)) = DEVICE_IDLE
   \<and> callbacks (trace (start constructed)) = [(0, 1)]
   \<and> callbacks (trace (startAdvertising (startAdvertising (start constructed)))) = [(0, 1), (1, 2)]
   \<and> startAdvertising (startAdvertising (startAdvertising (start constructed)))
       = startAdvertising (start constructed)"
proof -
  have a: "deviceState (joystick (start constructed)) = DEVICE_IDLE"
    by (simp add: start_def updateDeviceState_state constructed_defs device_state_defs)
  have b: "stateChangeCallback (joystick (start constructed)) = Some JoystickStateCallback"
    by (simp add: start_def updateDeviceState_callback constructed_defs)
  have c: "callbacks (trace (start constructed)) = [(0, 1)]"
    by (simp add: constructed_defs machine_defs device_state_defs Let_def)
  have d: "deviceState (joystick (startAdvertising (start constructed))) = DEVICE_ADVERTISING"
    using a by (rule startAdvertising_state)
  show ?thesis
    using unchanged_state_is_noop [of "start constructed" JoystickStateCallback]
      unchanged_state_is_noop [of "startAdvertising (start constructed)" JoystickStateCallback]
      a b c d
    by (simp add: device_state_defs)
qed

text \<open>
  Claim C6. In every state other than Connected, \<^verbatim>\<open>notifyHIDReport\<close> and
  \<^verbatim>\<open>notifyBatteryLevel\<close> return with nothing sent and nothing changed; in Connected
  each sends exactly one notification, of the current report or battery level.
\<close>

theorem notify_skipped_unless_connected:
  "(deviceState (joystick w) \<noteq> DEVICE_CONNECTED \<longrightarrow>
      notifyHIDReport w = w \<and> notifyBatteryLevel w = w)
   \<and> (deviceState (joystick w) = DEVICE_CONNECTED \<longrightarrow>
      notifyHIDReport w = w\<lparr>trace := trace w @ [InputNotify (report (joystick w))]\<rparr>
    \<and> notifyBatteryLevel w = w\<lparr>trace := trace w @ [BatteryNotify (batteryLevel (joystick w))]\<rparr>)"
  by (simp add: notifyHIDReport_def notifyBatteryLevel_def emit_def)

theorem notify_skipped_unless_connected_witness:
  "deviceState (joystick constructed) \<noteq> DEVICE_CONNECTED
   \<and> notifyHIDReport constructed = constructed
   \<and> notifyBatteryLevel constructed = constructed
   \<and> deviceState (joystick (onConnect constructed)) = DEVICE_CONNECTED
   \<and> inputReports (trace (notifyHIDReport (onConnect constructed))) = [[0, 0, 0, 0, 0]]"
proof -
  have a: "deviceState (joystick constructed) \<noteq> DEVICE_CONNECTED"
    by (simp add: constructed_defs device_state_defs)
  have b: "deviceState (joystick (onConnect constructed)) = DEVICE_CONNECTED"
    by (simp add: onConnect_def updateDeviceState_state)
  have c: "inputReports (trace (notifyHIDReport (onConnect constructed))) = [[0, 0, 0, 0, 0]]"
    by (simp add: constructed_defs machine_defs device_state_defs Let_def report_def)
  show ?thesis
    using notify_skipped_unless_connected [of constructed]
      notify_skipped_unless_connected [of "onConnect constructed"] a b c
    by simp
qed

section \<open>The idle timeout\<close>

lemma powerOff_asleep: "asleep (powerOff w)"
  by (simp add: powerOff_def Let_def)

lemma checkTimers_idle:
  assumes "deviceState (joystick w) = DEVICE_IDLE"
  shows "checkTimers w =
     (if 30000 < clock w - lastActivityTime w then powerOff w else w)"
  using assms
  by (simp add: checkTimers_def Let_def getState_def millis_def IDLE_TIMEOUT_def
      powerOff_asleep device_state_defs)

lemma idleAtZero_facts:
  "deviceState (joystick idleAtZero) = DEVICE_IDLE"
  "lastActivityTime idleAtZero = 0"
  "\<not> asleep idleAtZero"
  by (simp_all add: idleAtZero_def constructed_defs machine_defs device_state_defs Let_def)

text \<open>
  Claim C5, as the code has it. With the device Idle, awake, and
  \<^verbatim>\<open>lastActivityTime\<close> 0, \<^verbatim>\<open>checkTimers\<close> at clock value \<open>t\<close> powers the chip down
  exactly when \<open>t\<close> is greater than 30000: at every \<open>t\<close> from 30001 on, and at no
  \<open>t\<close> up to and including 30000.
\<close>

theorem idle_timeout_strict:
  assumes idle: "deviceState (joystick w) = DEVICE_IDLE"
    and since: "lastActivityTime w = 0"
    and awake: "\<not> asleep w"
  shows "asleep (checkTimers (w\<lparr>clock := t\<rparr>)) \<longleftrightarrow> 30000 < unat t"
proof -
  have "checkTimers (w\<lparr>clock := t\<rparr>) =
      (if 30000 < t then powerOff (w\<lparr>clock := t\<rparr>) else w\<lparr>clock := t\<rparr>)"
    using checkTimers_idle [of "w\<lparr>clock := t\<rparr>"] idle since by simp
  moreover have "(30000 < t) = (30000 < unat t)"
    by (simp add: word_less_nat_alt)
  ultimately show ?thesis
    using awake by (simp add: powerOff_asleep)
qed

theorem idle_timeout_strict_witness:
  "asleep (checkTimers (idleAtZero\<lparr>clock := 30001\<rparr>))
   \<and> \<not> asleep (checkTimers (idleAtZero\<lparr>clock := 29999\<rparr>))"
  using idle_timeout_strict [OF idleAtZero_facts, of 30001]
    idle_timeout_strict [OF idleAtZero_facts, of 29999]
  by simp

text \<open>
  The device that entered Idle at clock 0 is not powered down by the check at
  \<open>t = 30000\<close>.
\<close>

theorem idle_timeout_not_at_30000:
  "deviceState (joystick idleAtZero) = DEVICE_IDLE
   \<and> lastActivityTime idleAtZero = 0
   \<and> (30000 :: nat) \<le> unat (30000 :: ulong)
   \<and> \<not> asleep (checkTimers (idleAtZero\<lparr>clock := 30000\<rparr>))"
  by (simp add: idleAtZero_facts checkTimers_idle)

section \<open>One poll of the controller, end to end\<close>

text \<open>
  Both \<^verbatim>\<open>for\<close> loops in closed form: after \<open>readLoop\<close> from index \<open>i\<close> the
  entries \<open>i\<close> to 7 of \<open>buttonState\<close> hold the inverted pin levels, and
  \<open>edgeLoop\<close> raises the flag exactly when one of the entries \<open>i\<close> to 7 differs
  from the previous snapshot, which it brings up to date.
\<close>

lemma readLoop_closed:
  "readLoop i pin w =
     w\<lparr>buttonState := (\<lambda>k. if i \<le> k \<and> k < 8 then \<not> pin k else buttonState w k),
       trace := trace w @ concat (replicate (8 - i)
                  [DigitalWrite CLK_PIN HIGH, DigitalWrite CLK_PIN LOW])\<rparr>"
proof (induction i pin w rule: readLoop.induct)
  case (1 i pin w)
  show ?case
  proof (cases "i < 8")
    case True
    define w2 where "w2 = digitalWrite CLK_PIN LOW (digitalWrite CLK_PIN HIGH
                             (w\<lparr>buttonState := (buttonState w)(i := \<not> pin i)\<rparr>))"
    have r: "replicate (8 - i) [DigitalWrite CLK_PIN HIGH, DigitalWrite CLK_PIN LOW]
        = [DigitalWrite CLK_PIN HIGH, DigitalWrite CLK_PIN LOW]
          # replicate (8 - (i + 1)) [DigitalWrite CLK_PIN HIGH, DigitalWrite CLK_PIN LOW]"
      using True by (cases "8 - i") auto
    have "readLoop i pin w = readLoop (i + 1) pin w2"
      using True by (subst readLoop.simps) (simp add: Let_def w2_def)
    also have "\<dots> =
        w2\<lparr>buttonState :=
             (\<lambda>k. if i + 1 \<le> k \<and> k < 8 then \<not> pin k else buttonState w2 k),
           trace := trace w2 @ concat (replicate (8 - (i + 1))
                      [DigitalWrite CLK_PIN HIGH, DigitalWrite CLK_PIN LOW])\<rparr>"
      using "1.IH" [OF True refl refl] by (simp add: w2_def)
    also have "\<dots> =
        w\<lparr>buttonState := (\<lambda>k. if i \<le> k \<and> k < 8 then \<not> pin k else buttonState w k),
          trace := trace w @ concat (replicate (8 - i)
                     [DigitalWrite CLK_PIN HIGH, DigitalWrite CLK_PIN LOW])\<rparr>"
      using True
      by (intro world.equality) (auto simp: w2_def digitalWrite_def emit_def r fun_eq_iff)
    finally show ?thesis .
  next
    case False
    then show ?thesis
      by (subst readLoop.simps) (intro world.equality, auto)
  qed
qed

lemma edgeLoop_closed:
  "edgeLoop i c w =
     (c \<or> (\<exists>k. i \<le> k \<and> k < 8 \<and> buttonState w k \<noteq> prevButtonState w k),
      w\<lparr>prevButtonState :=
          (\<lambda>k. if i \<le> k \<and> k < 8 then buttonState w k else prevButtonState w k)\<rparr>)"
  (is "_ = (c \<or> ?E i w, ?W i w)")
proof (induction i c w rule: edgeLoop.induct)
  case (1 i c w)
  show ?case
  proof (cases "i < 8")
    case False
    have a: "edgeLoop i c w = (c, w)"
      using False by (subst edgeLoop.simps) simp
    have b: "?W i w = w"
      using False by (intro world.equality) (auto simp: fun_eq_iff)
    have d: "(c \<or> ?E i w) = c"
      using False by auto
    show ?thesis
      by (simp only: a b d)
  next
    case True
    show ?thesis
    proof (cases "buttonState w i \<noteq> prevButtonState w i")
      case differ: True
      define w1 where "w1 = w\<lparr>prevButtonState := (prevButtonState w)(i := buttonState w i)\<rparr>"
      have a: "edgeLoop i c w = edgeLoop (i + 1) True w1"
        using True differ by (subst edgeLoop.simps) (simp add: w1_def)
      have b: "edgeLoop (i + 1) True w1 = (True \<or> ?E (i + 1) w1, ?W (i + 1) w1)"
        using "1.IH"(1) [OF True differ] by (simp only: w1_def)
      have d: "?W (i + 1) w1 = ?W i w"
        using True by (intro world.equality) (auto simp: w1_def fun_eq_iff)
      have e: "(c \<or> ?E i w) = True"
        using True differ by blast
      show ?thesis
        by (simp only: a b d e) simp
    next
      case same: False
      have a: "edgeLoop i c w = edgeLoop (i + 1) c w"
        using True same by (subst edgeLoop.simps) simp
      have b: "edgeLoop (i + 1) c w = (c \<or> ?E (i + 1) w, ?W (i + 1) w)"
        using "1.IH"(2) [OF True same] by simp
      have d: "?W (i + 1) w = ?W i w"
        using True same
        by (intro world.equality) (auto simp: fun_eq_iff le_less Suc_le_eq)
      have e: "?E (i + 1) w = ?E i w"
        using same by (metis Suc_eq_plus1 Suc_leI le_less Suc_leD)
      show ?thesis
        by (simp only: a b d e)
    qed
  qed
qed

lemma inputReports_pulses:
  "inputReports (concat (replicate n [DigitalWrite p a, DigitalWrite q b])) = []"
  by (induction n) simp_all

text \<open>Nothing in main.cpp writes the axes: they stay as the constructor left them.\<close>

lemma axes_setters:
  "axes (setHat h j) = axes j"
  "axes (setBatteryLevel l j) = axes j"
  "axes (setButtons b1 b2 b3 b4 b5 b6 b7 b8 b9 b10 b11 b12 j) = axes j"
  by (simp_all add: setHat_def setBatteryLevel_def setButtons_def Let_def)

lemma axes_joystickStateCallback:
  "axes (joystick (joystickStateCallback w)) = axes (joystick w)"
  by (simp add: joystickStateCallback_def Let_def io_defs notifyBatteryLevel_def axes_setters)

lemma axes_updateDeviceState:
  "axes (joystick (updateDeviceState s w)) = axes (joystick w)"
  by (cases "stateChangeCallback (joystick w)"; cases "the (stateChangeCallback (joystick w))")
     (simp_all add: updateDeviceState_def Let_def emit_def axes_joystickStateCallback)

lemma axes_machine:
  "axes (joystick (start w)) = axes (joystick w)"
  "axes (joystick (startAdvertising w)) = axes (joystick w)"
  "axes (joystick (stopAdvertising w)) = axes (joystick w)"
  "axes (joystick (onConnect w)) = axes (joystick w)"
  "axes (joystick (onDisconnect w)) = axes (joystick w)"
  by (simp_all add: start_def startAdvertising_def stopAdvertising_def onConnect_def
      onDisconnect_def axes_updateDeviceState emit_def)

lemma axes_powerOff: "axes (joystick (powerOff w)) = axes (joystick w)"
  by (simp add: powerOff_def Let_def io_defs)

lemma axes_checkTimers: "axes (joystick (checkTimers w)) = axes (joystick w)"
  by (simp add: checkTimers_def Let_def io_defs axes_powerOff axes_machine)

lemma axes_checkBattery: "axes (joystick (checkBattery r w)) = axes (joystick w)"
  by (simp add: checkBattery_def Let_def io_defs notifyBatteryLevel_def axes_setters)

lemma axes_updateJoystick: "axes (joystick (updateJoystick w)) = axes (joystick w)"
  by (simp add: updateJoystick_def Let_def io_defs notifyHIDReport_def axes_setters
      axes_machine)

lemma joystick_readNESController:
  "joystick (readNESController pin w) = joystick w"
  by (simp add: readNESController_def readLoop_closed io_defs)

lemma joystick_edgeLoop: "joystick (snd (edgeLoop i c w)) = joystick w"
  by (simp add: edgeLoop_closed)

lemma axes_loop: "axes (joystick (loop inp w)) = axes (joystick w)"
  by (simp add: loop_def Let_def split_def delay_def axes_checkTimers axes_checkBattery
      axes_updateJoystick joystick_edgeLoop joystick_readNESController)

lemma axes_mainSetup: "axes (joystick (mainSetup r w)) = replicate 8 0"
  by (simp add: mainSetup_def Let_def axes_machine millis_def setStateChangeCallback_def
      newBLEJoystick_def setBatteryLevel_def)

lemma reachable_axes: "reachable w \<Longrightarrow> axes (joystick w) = replicate 8 0"
proof (induction rule: reachable.induct)
  case (boot reading t)
  show ?case by (rule axes_mainSetup)
next
  case (iteration w inp)
  then show ?case by (simp only: axes_loop)
next
  case (connect w)
  then show ?case by (simp only: axes_machine)
next
  case (disconnect w)
  then show ?case by (simp only: axes_machine)
next
  case (tick w d)
  then show ?case by (simp add: delay_def)
qed

text \<open>So the X and Y bytes of every report the firmware can send are 0.\<close>

lemma reachable_report_axes:
  assumes "reachable w"
  shows "report (joystick w) ! 3 = 0 \<and> report (joystick w) ! 4 = 0"
  using reachable_axes [OF assms] by (simp add: report_def)

text \<open>The phases of \<^verbatim>\<open>loop\<close>, one at a time.\<close>

lemma readNESController_fields:
  "prevButtonState (readNESController pin w) = prevButtonState w"
  "k < 8 \<Longrightarrow> buttonState (readNESController pin w) k = (\<not> pin k)"
  "inputReports (trace (readNESController pin w)) = inputReports (trace w)"
  by (simp_all add: readNESController_def readLoop_closed io_defs inputReports_append
      inputReports_pulses)

lemma edgeLoop_fields:
  "fst (edgeLoop 0 False w) = (\<exists>k<8. buttonState w k \<noteq> prevButtonState w k)"
  "buttonState (snd (edgeLoop 0 False w)) = buttonState w"
  "trace (snd (edgeLoop 0 False w)) = trace w"
  by (auto simp add: edgeLoop_closed)

lemma updateJoystick_connected:
  assumes "deviceState (joystick w) = DEVICE_CONNECTED"
  shows "deviceState (joystick (updateJoystick w)) = DEVICE_CONNECTED"
    and "trace (updateJoystick w) = trace w @ [InputNotify (report (joystick (updateJoystick w)))]"
    and "joystick (updateJoystick w) =
          setButtons (buttonState w NES_BUTTON_A) (buttonState w NES_BUTTON_B)
            False False False False False False False False
            (buttonState w NES_BUTTON_SELECT) (buttonState w NES_BUTTON_START)
            (setHat (dpadDirection (buttonState w)) (joystick w))"
  using assms
  by (simp_all add: updateJoystick_def Let_def io_defs notifyHIDReport_def setButtons_def
      setHat_def emit_def)

lemma checkBattery_fields:
  "deviceState (joystick (checkBattery r w)) = deviceState (joystick w)"
  "inputReports (trace (checkBattery r w)) = inputReports (trace w)"
  "buttons (joystick (checkBattery r w)) = buttons (joystick w)"
  "hat (joystick (checkBattery r w)) = hat (joystick w)"
  by (simp_all add: checkBattery_def Let_def io_defs notifyBatteryLevel_def
      setBatteryLevel_def inputReports_append)

lemma checkTimers_connected:
  "deviceState (joystick w) = DEVICE_CONNECTED \<Longrightarrow> checkTimers w = w"
  by (simp add: checkTimers_def Let_def io_defs device_state_defs)

lemma report_a_only:
  assumes "axes j = replicate 8 0"
  shows "report (setButtons True False False False False False False False False False
                   False False (setHat 0 j)) = [1, 0, 0, 0, 0]"
  using assms
  by (simp add: report_def setButtons_def setHat_def orBit_def Let_def nth_replicate)

lemma mainSetup_eval:
  "\<not> asleep (mainSetup 50 (reset 0))"
  "prevButtonState (onConnect (mainSetup 50 (reset 0))) = (\<lambda>i. False)"
  "inputReports (trace (onConnect (mainSetup 50 (reset 0)))) = []"
  by (simp_all add: mainSetup_def powerOn_def constructed_defs machine_defs device_state_defs
      Let_def HIGH_def LOW_def POWER_KEY_PIN_def LED0_PIN_def)

text \<open>
  A poll whose snapshot equals the previous one sends no report: the report of Claim C9
  is sent on a change.
\<close>

lemma unchanged_snapshot_sends_nothing:
  assumes connected: "deviceState (joystick w) = DEVICE_CONNECTED"
    and same: "\<forall>k<8. prevButtonState w k = (\<not> dataPin inp k)"
  shows "inputReports (trace (loop inp w)) = inputReports (trace w)"
proof -
  define w1 where "w1 = readNESController (dataPin inp) w"
  define w2 where "w2 = snd (edgeLoop 0 False w1)"
  define w4 where "w4 = checkBattery (batteryPercent inp) w2"
  have edge: "\<not> fst (edgeLoop 0 False w1)"
    using same by (simp add: edgeLoop_fields w1_def readNESController_fields)
  have t2: "inputReports (trace w2) = inputReports (trace w)"
    by (simp add: w2_def edgeLoop_fields w1_def readNESController_fields)
  have c4: "deviceState (joystick w4) = DEVICE_CONNECTED"
    by (simp add: w4_def checkBattery_fields w2_def joystick_edgeLoop w1_def
        joystick_readNESController connected)
  have ct: "checkTimers w4 = w4"
    using c4 by (rule checkTimers_connected)
  have l: "loop inp w = (if asleep w4 then w4 else delay 10 w4)"
    using edge [unfolded w1_def] ct [unfolded w4_def w2_def w1_def]
    by (simp add: loop_def Let_def split_def w4_def w2_def w1_def)
  show ?thesis
    by (simp add: l w4_def checkBattery_fields t2 delay_def)
qed

text \<open>
  Claim C9. In any state the firmware can reach, while Connected, an iteration of
  \<^verbatim>\<open>loop\<close> that samples only the A button pressed, the snapshot differing from the
  previous one, sends exactly one input report, with the bytes 01 00 00 00 00: button
  slot 1 set, hat centred, both axes zero.
\<close>

theorem a_button_report:
  assumes reach: "reachable w"
    and connected: "deviceState (joystick w) = DEVICE_CONNECTED"
    and snapshot: "\<forall>k<8. dataPin inp k = (k \<noteq> NES_BUTTON_A)"
    and changed: "\<exists>k<8. prevButtonState w k \<noteq> (k = NES_BUTTON_A)"
  shows "inputReports (trace (loop inp w)) =
           inputReports (trace w) @ [[0x01, 0x00, 0x00, 0x00, 0x00]]
    \<and> report (joystick (loop inp w)) = [0x01, 0x00, 0x00, 0x00, 0x00]"
proof -
  define w1 where "w1 = readNESController (dataPin inp) w"
  define w2 where "w2 = snd (edgeLoop 0 False w1)"
  define w3 where "w3 = updateJoystick w2"
  define w4 where "w4 = checkBattery (batteryPercent inp) w3"
  have bs1: "buttonState w1 k = (k = NES_BUTTON_A)" if "k < 8" for k
    using that snapshot by (simp add: w1_def readNESController_fields)
  have edge: "fst (edgeLoop 0 False w1)"
    using changed bs1
    by (auto simp: edgeLoop_fields w1_def readNESController_fields(1))
  have j2: "joystick w2 = joystick w"
    by (simp add: w2_def joystick_edgeLoop w1_def joystick_readNESController)
  have bs2: "buttonState w2 k = (k = NES_BUTTON_A)" if "k < 8" for k
    using bs1 [OF that] by (simp add: w2_def edgeLoop_fields)
  have t2: "inputReports (trace w2) = inputReports (trace w)"
    by (simp add: w2_def edgeLoop_fields w1_def readNESController_fields)
  have c2: "deviceState (joystick w2) = DEVICE_CONNECTED"
    by (simp add: j2 connected)
  have dpad: "dpadDirection (buttonState w2) = 0"
    by (simp add: dpadDirection_def bs2 nes_button_defs)
  have j3: "joystick w3 =
      setButtons True False False False False False False False False False
        False False (setHat 0 (joystick w))"
    by (simp add: w3_def updateJoystick_connected(3) [OF c2] dpad bs2 nes_button_defs j2)
  have "axes (joystick w) = replicate 8 0"
    using reach by (rule reachable_axes)
  then have r3: "report (joystick w3) = [1, 0, 0, 0, 0]"
    by (simp only: j3 report_a_only)
  have t3: "inputReports (trace w3) = inputReports (trace w) @ [[1, 0, 0, 0, 0]]"
    using updateJoystick_connected(2) [OF c2] r3 t2
    by (simp add: w3_def inputReports_append)
  have c3: "deviceState (joystick w3) = DEVICE_CONNECTED"
    using updateJoystick_connected(1) [OF c2] by (simp add: w3_def)
  have c4: "deviceState (joystick w4) = DEVICE_CONNECTED"
    by (simp add: w4_def checkBattery_fields c3)
  have t4: "inputReports (trace w4) = inputReports (trace w) @ [[1, 0, 0, 0, 0]]"
    by (simp add: w4_def checkBattery_fields t3)
  have r4: "report (joystick w4) = [1, 0, 0, 0, 0]"
    using r3 axes_checkBattery [of "batteryPercent inp" w3]
    by (simp add: report_def w4_def checkBattery_fields)
  have ct: "checkTimers w4 = w4"
    using c4 by (rule checkTimers_connected)
  have l: "loop inp w = (if asleep w4 then w4 else delay 10 w4)"
    using edge [unfolded w1_def] ct [unfolded w4_def w3_def w2_def w1_def]
    by (simp add: loop_def Let_def split_def w4_def w3_def w2_def w1_def)
  show ?thesis
    by (simp add: l t4 r4 delay_def)
qed

theorem a_button_report_witness:
  "reachable connectedAfterSetup
   \<and> deviceState (joystick connectedAfterSetup) = DEVICE_CONNECTED
   \<and> inputReports (trace (loop pressA connectedAfterSetup)) = [[0x01, 0x00, 0x00, 0x00, 0x00]]"
proof -
  have r: "reachable connectedAfterSetup"
    unfolding connectedAfterSetup_def
    by (rule reachable.connect [OF reachable.boot]) (rule mainSetup_eval)
  have c: "deviceState (joystick connectedAfterSetup) = DEVICE_CONNECTED"
    by (simp add: connectedAfterSetup_def onConnect_def updateDeviceState_state)
  have s: "\<forall>k<8. dataPin pressA k = (k \<noteq> NES_BUTTON_A)"
    by (simp add: pressA_def)
  have e: "\<exists>k<8. prevButtonState connectedAfterSetup k \<noteq> (k = NES_BUTTON_A)"
    by (simp add: connectedAfterSetup_def mainSetup_eval NES_BUTTON_A_def)
  show ?thesis
    using a_button_report [OF r c s e] r c
    by (simp add: connectedAfterSetup_def mainSetup_eval)
qed

section \<open>What a poll sends for a direction\<close>

lemma dpadDirection_cong:
  "\<forall>k<8. bs k = bs' k \<Longrightarrow> dpadDirection bs = dpadDirection bs'"
  by (simp add: dpadDirection_def nes_button_defs)

text \<open>
  While Connected, a poll whose snapshot differs from the previous one sends one report:
  that of the device object after \<^verbatim>\<open>setHat\<close> and \<^verbatim>\<open>setButtons\<close>. The axes are
  those the object already had.
\<close>

lemma changed_snapshot_report:
  assumes connected: "deviceState (joystick w) = DEVICE_CONNECTED"
    and changed: "\<exists>k<8. prevButtonState w k \<noteq> (\<not> dataPin inp k)"
  shows "inputReports (trace (loop inp w)) =
           inputReports (trace w) @
             [report (setButtons (\<not> dataPin inp NES_BUTTON_A) (\<not> dataPin inp NES_BUTTON_B)
                        False False False False False False False False
                        (\<not> dataPin inp NES_BUTTON_SELECT) (\<not> dataPin inp NES_BUTTON_START)
                        (setHat (dpadDirection (\<lambda>k. \<not> dataPin inp k)) (joystick w)))]"
proof -
  define w1 where "w1 = readNESController (dataPin inp) w"
  define w2 where "w2 = snd (edgeLoop 0 False w1)"
  define w3 where "w3 = updateJoystick w2"
  define w4 where "w4 = checkBattery (batteryPercent inp) w3"
  have bs1: "buttonState w1 k = (\<not> dataPin inp k)" if "k < 8" for k
    using that by (simp add: w1_def readNESController_fields)
  have edge: "fst (edgeLoop 0 False w1)"
    using changed bs1
    by (auto simp: edgeLoop_fields w1_def readNESController_fields(1))
  have j2: "joystick w2 = joystick w"
    by (simp add: w2_def joystick_edgeLoop w1_def joystick_readNESController)
  have bs2: "buttonState w2 k = (\<not> dataPin inp k)" if "k < 8" for k
    using bs1 [OF that] by (simp add: w2_def edgeLoop_fields)
  have t2: "inputReports (trace w2) = inputReports (trace w)"
    by (simp add: w2_def edgeLoop_fields w1_def readNESController_fields)
  have c2: "deviceState (joystick w2) = DEVICE_CONNECTED"
    by (simp add: j2 connected)
  have dpad: "dpadDirection (buttonState w2) = dpadDirection (\<lambda>k. \<not> dataPin inp k)"
    by (rule dpadDirection_cong) (simp add: bs2)
  have j3: "joystick w3 =
      setButtons (\<not> dataPin inp NES_BUTTON_A) (\<not> dataPin inp NES_BUTTON_B)
        False False False False False False False False
        (\<not> dataPin inp NES_BUTTON_SELECT) (\<not> dataPin inp NES_BUTTON_START)
        (setHat (dpadDirection (\<lambda>k. \<not> dataPin inp k)) (joystick w))"
    by (simp add: w3_def updateJoystick_connected(3) [OF c2] dpad bs2 nes_button_defs j2)
  have t3: "inputReports (trace w3) = inputReports (trace w) @ [report (joystick w3)]"
    using updateJoystick_connected(2) [OF c2] t2
    by (simp add: w3_def inputReports_append)
  have c3: "deviceState (joystick w3) = DEVICE_CONNECTED"
    using updateJoystick_connected(1) [OF c2] by (simp add: w3_def)
  have c4: "deviceState (joystick w4) = DEVICE_CONNECTED"
    by (simp add: w4_def checkBattery_fields c3)
  have t4: "inputReports (trace w4) = inputReports (trace w) @ [report (joystick w3)]"
    by (simp add: w4_def checkBattery_fields t3)
  have ct: "checkTimers w4 = w4"
    using c4 by (rule checkTimers_connected)
  have l: "loop inp w = (if asleep w4 then w4 else delay 10 w4)"
    using edge [unfolded w1_def] ct [unfolded w4_def w3_def w2_def w1_def]
    by (simp add: loop_def Let_def split_def w4_def w3_def w2_def w1_def)
  show ?thesis
    by (simp add: l t4 j3 delay_def)
qed

lemma connectedAfterSetup_facts:
  "deviceState (joystick connectedAfterSetup) = DEVICE_CONNECTED"
  "prevButtonState connectedAfterSetup = (\<lambda>i. False)"
  "inputReports (trace connectedAfterSetup) = []"
  "axes (joystick connectedAfterSetup) = replicate 8 0"
proof -
  show "deviceState (joystick connectedAfterSetup) = DEVICE_CONNECTED"
    by (simp add: connectedAfterSetup_def onConnect_def updateDeviceState_state)
  show "prevButtonState connectedAfterSetup = (\<lambda>i. False)"
    by (simp add: connectedAfterSetup_def mainSetup_eval)
  show "inputReports (trace connectedAfterSetup) = []"
    by (simp add: connectedAfterSetup_def mainSetup_eval)
  show "axes (joystick connectedAfterSetup) = replicate 8 0"
    by (simp add: connectedAfterSetup_def axes_machine axes_mainSetup)
qed

text \<open>
  Claim C2. With only Up and Right held, \<^verbatim>\<open>loop\<close> derives the hat value 2 and the
  locals \<^verbatim>\<open>x\<close> = 127 and \<^verbatim>\<open>y\<close> = -127, as the claim says. But the locals are
  never handed to \<^verbatim>\<open>setAxes\<close>: the report that the connected device sends for this
  snapshot is 00 00 02 00 00, with the hat 2 and with X = 0 and Y = 0, not 127 and -127.
\<close>

theorem up_right_report_axes_zero:
  "dpadDirection (\<lambda>k. \<not> dataPin pressUpRight k) = 2
   \<and> sint (axisX (\<lambda>k. \<not> dataPin pressUpRight k)) = 127
   \<and> sint (axisY (\<lambda>k. \<not> dataPin pressUpRight k)) = - 127
   \<and> inputReports (trace (loop pressUpRight connectedAfterSetup)) =
        [[0x00, 0x00, 0x02, 0x00, 0x00]]"
proof -
  have d: "dpadDirection (\<lambda>k. \<not> dataPin pressUpRight k) = 2"
    by (simp add: pressUpRight_def dpadDirection_def nes_button_defs)
  have x: "sint (axisX (\<lambda>k. \<not> dataPin pressUpRight k)) = 127"
    by (simp add: pressUpRight_def axisX_def nes_button_defs)
  have y: "sint (axisY (\<lambda>k. \<not> dataPin pressUpRight k)) = - 127"
    by (simp add: pressUpRight_def axisY_def nes_button_defs)
  have e: "\<exists>k<8. prevButtonState connectedAfterSetup k \<noteq> (\<not> dataPin pressUpRight k)"
    by (rule exI [of _ 4]) (simp add: connectedAfterSetup_facts pressUpRight_def nes_button_defs)
  have r: "report (setButtons (\<not> dataPin pressUpRight NES_BUTTON_A)
                 (\<not> dataPin pressUpRight NES_BUTTON_B)
                 False False False False False False False False
                 (\<not> dataPin pressUpRight NES_BUTTON_SELECT)
                 (\<not> dataPin pressUpRight NES_BUTTON_START)
                 (setHat 2 (joystick connectedAfterSetup))) = [0, 0, 2, 0, 0]"
    by (simp add: report_def setButtons_def setHat_def orBit_def Let_def
        connectedAfterSetup_facts pressUpRight_def nes_button_defs)
  show ?thesis
    using changed_snapshot_report [OF connectedAfterSetup_facts(1) e]
    by (simp add: d x y r connectedAfterSetup_facts)
qed

end
